theory Spec2Isabelle
  imports Complex_Main
begin

section \<open>Data model of the editor canvas (src/canvas.ts)\<close>

text \<open>
  A JavaScript \<open>number\<close> is modelled as a real: rounding, overflow and the values NaN and
  Infinity of IEEE doubles are outside the model. The one place where the reals would
  silently differ from the program is a division by zero (HOL gives \<open>0\<close>, JavaScript gives
  NaN or an infinity), so every division by a value that can be zero is a branch of the
  model that ends in \<open>NonFinite\<close>. Reading a property of \<open>undefined\<close> throws a TypeError.
\<close>

datatype error = TypeError | NonFinite

text \<open>
  Modelled from the spec: \<open>ID\<close> is imported from \<open>./store\<close>; the canvas only stores and
  compares ids.
\<close>

type_synonym ID = nat

record Offset =
  x :: real
  y :: real

text \<open>\<open>type Rect = Offset & Size\<close>: an offset with a width and a height.\<close>

record Rect = Offset +
  width :: real
  height :: real

text \<open>
  \<open>CanvasNode extends BaseNode & Rect\<close>. Modelled from the spec: \<open>BaseNode\<close> is declared in
  \<open>./store\<close>; the canvas reads its \<open>id\<close> (here \<open>id_node\<close>, since \<open>id\<close> is the identity
  function of HOL) and its \<open>name\<close>.
\<close>

record CanvasNode = Rect +
  id_node :: ID
  name :: string
  backgroundColor :: "string option"

text \<open>
  Modelled from the spec: \<open>NodeEdge\<close> is declared in \<open>./store\<close>; it references a start
  node id and an end node id.
\<close>

record NodeEdge =
  startNode :: ID
  endNode :: ID

text \<open>
  Modelled from the spec: the class \<open>Store\<close> is in \<open>./store\<close>. It owns a stable-order
  sequence of nodes and one of edges.
\<close>

record Store =
  nodes :: "CanvasNode list"
  edges :: "NodeEdge list"

datatype PointerAction = NONE | ZOOM | PAN | MOVE

text \<open>The events of the DOM, with the fields the handlers read.\<close>

record MouseEvent =
  offsetX :: real
  offsetY :: real
  ctrlKey :: bool

record WheelEvent = MouseEvent +
  deltaX :: real
  deltaY :: real

text \<open>The calls the canvas makes on its 2D drawing context, in the order it makes them.\<close>

datatype DrawCmd =
    Save
  | Restore
  | BeginPath
  | StrokeStyle string
  | MoveTo real real
  | BezierCurveTo real real real real real real
  | Stroke

text \<open>
  The fields of class \<open>Canvas\<close>. \<open>cursor\<close> is \<open>canvas.style.cursor\<close>; \<open>ctx\<close> is the
  drawing context, kept as the list of calls made on it; \<open>updates\<close> counts the
  invocations of the host's \<open>onUpdate\<close> callback, which is a signal without payload.
\<close>

record Canvas =
  store :: Store
  offset :: Offset
  scale :: real
  action :: PointerAction
  lastOffset :: "Offset option"
  ctx :: "DrawCmd list"
  selected :: "ID list"
  hovered :: "ID list"
  matrix :: "real list"
  invMatrix :: "real list"
  cursor :: string
  updates :: nat

text \<open>The field initialisers of the class.\<close>

definition newCanvas :: Canvas where
  "newCanvas =
     \<lparr>store = \<lparr>nodes = [], edges = []\<rparr>,
      offset = \<lparr>x = 0, y = 0\<rparr>,
      scale = 1,
      action = NONE,
      lastOffset = None,
      ctx = [],
      selected = [],
      hovered = [],
      matrix = [1, 0, 0, 1, 0, 0],
      invMatrix = [1, 0, 0, 1],
      cursor = [],
      updates = 0\<rparr>"

section \<open>The Graph Store contract\<close>

text \<open>
  Modelled from the spec: \<open>Store.retrieveNode\<close> is in \<open>./store\<close>. It reads one node by id
  and returns the node or absent.
\<close>

fun retrieveNode :: "Store \<Rightarrow> ID \<Rightarrow> CanvasNode option" where
  "retrieveNode st i = find (\<lambda>n. id_node n = i) (nodes st)"

text \<open>
  Modelled from the spec: \<open>Store.updateNode\<close> is in \<open>./store\<close>. It persists a node's new
  position and attributes under the node's id, and does nothing when the id is unknown.
\<close>

fun persist :: "CanvasNode \<Rightarrow> CanvasNode list \<Rightarrow> CanvasNode list" where
  "persist n [] = []"
| "persist n (m # ms) = (if id_node m = id_node n then n # ms else m # persist n ms)"

definition updateNode :: "Store \<Rightarrow> CanvasNode \<Rightarrow> Store" where
  "updateNode st n = st\<lparr>nodes := persist n (nodes st)\<rparr>"

section \<open>Transform engine\<close>

text \<open>
  \<open>toWorld\<close> subtracts the forward translation \<open>matrix[4], matrix[5]\<close> from the point and
  applies the cached inverse linear part. The two arrays are written by \<open>createMatrix\<close>,
  whose result is decided by the rounding, underflow and overflow of doubles (a
  determinant that rounds to zero leaves infinite and NaN entries in the inverse);
  that is outside a model over the reals, so \<open>createMatrix\<close> is not part of it, and
  \<open>toWorld\<close> is stated for whatever the cached arrays hold.
\<close>

definition toWorld :: "real \<Rightarrow> real \<Rightarrow> Canvas \<Rightarrow> Offset" where
  "toWorld x0 y0 c =
     (let m = invMatrix c;
          xx = x0 - matrix c ! 4;
          yy = y0 - matrix c ! 5
      in \<lparr>x = xx * m ! 0 + yy * m ! 2, y = xx * m ! 1 + yy * m ! 3\<rparr>)"

section \<open>Hit test\<close>

text \<open>
  The \<open>for\<close> loop of \<open>getSelection\<close> over \<open>store.nodes\<close>, pushing each hit onto \<open>items\<close>.
\<close>

fun getSelection_loop :: "Offset \<Rightarrow> CanvasNode list \<Rightarrow> ID list \<Rightarrow> ID list" where
  "getSelection_loop localOffset [] items = items"
| "getSelection_loop localOffset (node # rest) items =
     getSelection_loop localOffset rest
       (if x localOffset \<ge> x node \<and>
           x localOffset \<le> x node + width node \<and>
           y localOffset \<ge> y node \<and>
           y localOffset \<le> y node + height node
        then items @ [id_node node]
        else items)"

definition getSelection :: "Offset \<Rightarrow> Canvas \<Rightarrow> ID list" where
  "getSelection target c =
     (let localOffset = toWorld (x target) (y target) c
      in getSelection_loop localOffset (nodes (store c)) [])"

section \<open>Interaction state machine\<close>

definition onUpdate :: "Canvas \<Rightarrow> Canvas" where
  "onUpdate c = c\<lparr>updates := Suc (updates c)\<rparr>"

definition clear :: "Canvas \<Rightarrow> Canvas" where
  "clear c = onUpdate (c\<lparr>selected := []\<rparr>)"

definition selectedNode :: "Canvas \<Rightarrow> CanvasNode option" where
  "selectedNode c =
     (if length (selected c) = 0 then None
      else retrieveNode (store c) (selected c ! (length (selected c) - 1)))"

definition hoveredNode :: "Canvas \<Rightarrow> CanvasNode option" where
  "hoveredNode c =
     (if length (hovered c) = 0 then None
      else retrieveNode (store c) (hovered c ! (length (hovered c) - 1)))"

text \<open>\<open>e.preventDefault()\<close> acts on the event only and is left out.\<close>

definition onWheel :: "WheelEvent \<Rightarrow> Canvas \<Rightarrow> Canvas" where
  "onWheel e c =
     (let c = (if ctrlKey e
               then (c\<lparr>action := ZOOM\<rparr>)\<lparr>scale := scale c - deltaY e * 0.01\<rparr>
               else
                 let c = c\<lparr>action := PAN\<rparr>;
                     c = c\<lparr>offset := (offset c)\<lparr>x := x (offset c) - deltaX e * 2\<rparr>\<rparr>
                 in c\<lparr>offset := (offset c)\<lparr>y := y (offset c) - deltaY e * 2\<rparr>\<rparr>);
          c = onUpdate c
      in c\<lparr>action := NONE\<rparr>)"

definition onMouseDown :: "MouseEvent \<Rightarrow> Canvas \<Rightarrow> Canvas" where
  "onMouseDown e c =
     (let point = \<lparr>x = offsetX e, y = offsetY e\<rparr>;
          c = c\<lparr>lastOffset := Some point\<rparr>;
          c = c\<lparr>action := MOVE\<rparr>;
          c = clear c;
          selection = getSelection point c;
          c = c\<lparr>selected := selected c @ selection\<rparr>
      in onUpdate c)"

definition onMouseUp :: "MouseEvent \<Rightarrow> Canvas \<Rightarrow> Canvas" where
  "onMouseUp e c = (c\<lparr>lastOffset := None\<rparr>)\<lparr>action := NONE\<rparr>"

definition checkHover :: "Offset \<Rightarrow> Canvas \<Rightarrow> Canvas" where
  "checkHover point c =
     (let c = c\<lparr>hovered := []\<rparr>;
          selection = getSelection point c;
          c = c\<lparr>hovered := hovered c @ selection\<rparr>;
          node = hoveredNode c
      in case node of
           Some n \<Rightarrow> c\<lparr>cursor := ''pointer''\<rparr>
         | None \<Rightarrow> c\<lparr>cursor := ''default''\<rparr>)"

text \<open>
  \<open>moveNode\<close> assigns to the fields of the node object it is given and hands the object to
  the store; the model returns the node after the assignments together with the canvas.
  A scale of zero makes both quotients infinite or NaN.
\<close>

definition moveNode :: "CanvasNode \<Rightarrow> Offset \<Rightarrow> Canvas \<Rightarrow> error + CanvasNode \<times> Canvas" where
  "moveNode node delta c =
     (if scale c = 0 then Inl NonFinite
      else
        let node = node\<lparr>x := x node + x delta / scale c\<rparr>;
            node = node\<lparr>y := y node + y delta / scale c\<rparr>
        in Inr (node, c\<lparr>store := updateNode (store c) node\<rparr>))"

text \<open>
  \<open>this.lastOffset!.x\<close> reads a property of \<open>lastOffset\<close>, which throws when the field is
  \<open>undefined\<close>.
\<close>

definition onMouseMove :: "MouseEvent \<Rightarrow> Canvas \<Rightarrow> error + Canvas" where
  "onMouseMove e c =
     (if action c = MOVE \<and> length (selected c) > 0 then
        (case lastOffset c of
           None \<Rightarrow> Inl TypeError
         | Some lo \<Rightarrow>
             let delta = \<lparr>x = offsetX e - x lo, y = offsetY e - y lo\<rparr>;
                 node = selectedNode c
             in (case (case node of
                         Some n \<Rightarrow> map_sum (\<lambda>err. err) snd (moveNode n delta c)
                       | None \<Rightarrow> Inr c) of
                   Inl err \<Rightarrow> Inl err
                 | Inr c \<Rightarrow> Inr (c\<lparr>lastOffset := Some \<lparr>x = offsetX e, y = offsetY e\<rparr>\<rparr>)))
      else Inr (checkHover \<lparr>x = offsetX e, y = offsetY e\<rparr> c))"

section \<open>Rendering of edges\<close>

definition draw :: "DrawCmd \<Rightarrow> Canvas \<Rightarrow> Canvas" where
  "draw cmd c = c\<lparr>ctx := ctx c @ [cmd]\<rparr>"

definition scopedPaint :: "(Canvas \<Rightarrow> Canvas) \<Rightarrow> Canvas \<Rightarrow> Canvas" where
  "scopedPaint act c = draw Restore (act (draw Save c))"

text \<open>
  \<open>retrieveNode(...)!\<close> only silences the type checker: an absent node stays \<open>undefined\<close>,
  and reading \<open>startNode.x\<close> or \<open>endNode.x\<close> then throws.
\<close>

definition renderEdge :: "NodeEdge \<Rightarrow> Canvas \<Rightarrow> error + Canvas" where
  "renderEdge edge c =
     (let c = draw Save c;
          startNode' = retrieveNode (store c) (startNode edge);
          endNode' = retrieveNode (store c) (endNode edge)
      in case startNode' of
           None \<Rightarrow> Inl TypeError
         | Some sn \<Rightarrow>
             let start = \<lparr>x = x sn + width sn / 2, y = y sn + height sn / 2,
                          width = width sn, height = height sn\<rparr>
             in (case endNode' of
                   None \<Rightarrow> Inl TypeError
                 | Some en \<Rightarrow>
                     let end' = \<lparr>x = x en + width en / 2, y = y en + height en / 2,
                                 width = width en, height = height en\<rparr>;
                         c = scopedPaint
                               (\<lambda>c. let c = draw BeginPath c;
                                         c = draw (StrokeStyle ''black'') c;
                                         c = draw (MoveTo (x start) (y start)) c;
                                         c = draw (BezierCurveTo
                                                     (x start + width start / 2) (y start)
                                                     (x end' - width end' / 2) (y end')
                                                     (x end') (y end')) c
                                     in draw Stroke c) c
                     in Inr (draw Restore c)))"

text \<open>The loop of \<open>renderEdges\<close>: an exception thrown for one edge ends the loop.\<close>

fun renderEdges_loop :: "NodeEdge list \<Rightarrow> Canvas \<Rightarrow> error + Canvas" where
  "renderEdges_loop [] c = Inr c"
| "renderEdges_loop (edge # rest) c =
     (case renderEdge edge c of
        Inl err \<Rightarrow> Inl err
      | Inr c' \<Rightarrow> renderEdges_loop rest c')"

definition renderEdges :: "Canvas \<Rightarrow> error + Canvas" where
  "renderEdges c = renderEdges_loop (edges (store c)) c"

section \<open>Reference notions and example scenes\<close>

text \<open>
  Containment as the specification words it: the world point lies in
  \<open>[node.x, node.x + node.width]\<close> horizontally and in \<open>[node.y, node.y + node.height]\<close>
  vertically, both ends included.
\<close>

definition inside_rect :: "Offset \<Rightarrow> CanvasNode \<Rightarrow> bool" where
  "inside_rect p n = (x p \<in> {x n .. x n + width n} \<and> y p \<in> {y n .. y n + height n})"

text \<open>
  A run of wheel events in which every event with the ctrl modifier takes less from the
  scale than the scale it finds.
\<close>

fun within_scale :: "WheelEvent list \<Rightarrow> Canvas \<Rightarrow> bool" where
  "within_scale [] c = True"
| "within_scale (e # es) c =
     ((ctrlKey e \<longrightarrow> deltaY e * 0.01 < scale c) \<and> within_scale es (onWheel e c))"

text \<open>
  A drag can read the last offset: every press records one together with the action
  \<open>MOVE\<close>, and every release clears both.
\<close>

definition drag_ready :: "Canvas \<Rightarrow> bool" where
  "drag_ready c = (action c = MOVE \<longrightarrow> lastOffset c \<noteq> None)"

text \<open>An edge resolves in a store when both of its node ids are found there.\<close>

definition resolves :: "Store \<Rightarrow> NodeEdge \<Rightarrow> bool" where
  "resolves st e =
     (retrieveNode st (startNode e) \<noteq> None \<and> retrieveNode st (endNode e) \<noteq> None)"

text \<open>
  The drawing of one edge as the specification words it: a cubic curve from the centre of
  the start node to the centre of the end node, the control points offset horizontally
  by half of each endpoint's width, inside two nested save/restore scopes.
\<close>

definition edge_curve :: "CanvasNode \<Rightarrow> CanvasNode \<Rightarrow> DrawCmd list" where
  "edge_curve sn en =
     (let sx = x sn + width sn / 2; sy = y sn + height sn / 2;
          ex = x en + width en / 2; ey = y en + height en / 2
      in [Save, Save, BeginPath, StrokeStyle ''black'', MoveTo sx sy,
          BezierCurveTo (sx + width sn / 2) sy (ex - width en / 2) ey ex ey,
          Stroke, Restore, Restore])"

definition edge_cmds :: "Store \<Rightarrow> NodeEdge \<Rightarrow> DrawCmd list" where
  "edge_cmds st e =
     (case retrieveNode st (startNode e) of
        None \<Rightarrow> []
      | Some sn \<Rightarrow>
          (case retrieveNode st (endNode e) of
             None \<Rightarrow> []
           | Some en \<Rightarrow> edge_curve sn en))"

text \<open>
  Two overlapping nodes, \<open>node1\<close> before \<open>node2\<close> in store order, joined by one edge; the
  same scene with an edge whose end node is not in the store; pointer and wheel events.
\<close>

definition node1 :: CanvasNode where
  "node1 = \<lparr>x = 10, y = 10, width = 20, height = 20, id_node = 1, name = ''A'',
            backgroundColor = None\<rparr>"

definition node2 :: CanvasNode where
  "node2 = \<lparr>x = 20, y = 20, width = 20, height = 20, id_node = 2, name = ''B'',
            backgroundColor = None\<rparr>"

definition scene :: Canvas where
  "scene = newCanvas\<lparr>store := \<lparr>nodes = [node1, node2],
                                edges = [\<lparr>startNode = 1, endNode = 2\<rparr>]\<rparr>\<rparr>"

definition dangling :: Canvas where
  "dangling = newCanvas\<lparr>store := \<lparr>nodes = [node1],
                                   edges = [\<lparr>startNode = 1, endNode = 2\<rparr>]\<rparr>\<rparr>"

definition mouseAt :: "real \<Rightarrow> real \<Rightarrow> MouseEvent" where
  "mouseAt px py = \<lparr>offsetX = px, offsetY = py, ctrlKey = False\<rparr>"

definition wheel :: "bool \<Rightarrow> real \<Rightarrow> real \<Rightarrow> WheelEvent" where
  "wheel ctrl dx dy = \<lparr>offsetX = 0, offsetY = 0, ctrlKey = ctrl, deltaX = dx, deltaY = dy\<rparr>"

section \<open>Helper lemmas\<close>

lemma getSelection_loop_filter:
  "getSelection_loop lo ns items = items @ map id_node (filter (inside_rect lo) ns)"
  by (induction ns arbitrary: items) (simp_all add: inside_rect_def)

lemma getSelection_hovered: "getSelection p (c\<lparr>hovered := h\<rparr>) = getSelection p c"
  by (simp add: getSelection_def toWorld_def)

lemma scale_onWheel:
  "scale (onWheel e c) = (if ctrlKey e then scale c - deltaY e * 0.01 else scale c)"
  by (simp add: onWheel_def onUpdate_def Let_def)

lemma within_scale_positive:
  "0 < scale c \<Longrightarrow> within_scale es c \<Longrightarrow> 0 < scale (fold onWheel es c)"
proof (induction es arbitrary: c)
  case Nil
  then show ?case by simp
next
  case (Cons e es)
  from Cons.prems have "0 < scale (onWheel e c)"
    by (simp add: scale_onWheel)
  with Cons.IH Cons.prems show ?case
    by simp
qed

lemma updates_onWheel: "updates (onWheel e c) = updates c + 1"
  by (simp add: onWheel_def onUpdate_def Let_def)

lemma updates_onMouseDown: "updates (onMouseDown e c) = updates c + 2"
  by (simp add: onMouseDown_def clear_def onUpdate_def Let_def)

lemma updates_clear: "updates (clear c) = updates c + 1"
  by (simp add: clear_def onUpdate_def)

lemma updates_checkHover: "updates (checkHover p c) = updates c"
  by (simp add: checkHover_def Let_def split: option.splits)

lemma updates_onMouseMove: "onMouseMove e c = Inr c' \<Longrightarrow> updates c' = updates c"
  by (auto simp: onMouseMove_def moveNode_def updates_checkHover Let_def
      split: if_splits option.splits)

lemma drag_ready_newCanvas: "drag_ready newCanvas"
  by (simp add: drag_ready_def newCanvas_def)

lemma drag_ready_onWheel: "drag_ready (onWheel e c)"
  by (simp add: drag_ready_def onWheel_def onUpdate_def Let_def)

lemma drag_ready_onMouseDown: "drag_ready (onMouseDown e c)"
  by (simp add: drag_ready_def onMouseDown_def clear_def onUpdate_def Let_def)

lemma drag_ready_onMouseUp: "drag_ready (onMouseUp e c)"
  by (simp add: drag_ready_def onMouseUp_def)

lemma drag_ready_onMouseMove: "drag_ready c \<Longrightarrow> onMouseMove e c = Inr c' \<Longrightarrow> drag_ready c'"
  by (auto simp: drag_ready_def onMouseMove_def checkHover_def moveNode_def Let_def
      split: if_splits option.splits)

lemma length_persist: "length (persist n ns) = length ns"
  by (induction ns) simp_all

lemma persist_other:
  "i < length ns \<Longrightarrow> id_node (ns ! i) \<noteq> id_node n \<Longrightarrow> persist n ns ! i = ns ! i"
proof (induction ns arbitrary: i)
  case Nil
  then show ?case by simp
next
  case (Cons m ms)
  then show ?case by (cases i) auto
qed

lemma find_persist:
  "find (\<lambda>m. id_node m = id_node n) ns \<noteq> None \<Longrightarrow>
   find (\<lambda>m. id_node m = id_node n) (persist n ns) = Some n"
  by (induction ns) auto

lemma renderEdge_unresolved:
  "\<not> resolves (store c) e \<Longrightarrow> renderEdge e c = Inl TypeError"
  by (auto simp: renderEdge_def resolves_def draw_def Let_def split: option.splits)

lemma renderEdge_resolved:
  "resolves (store c) e \<Longrightarrow>
   renderEdge e c = Inr (c\<lparr>ctx := ctx c @ edge_cmds (store c) e\<rparr>)"
  by (auto simp: renderEdge_def edge_cmds_def edge_curve_def resolves_def draw_def
      scopedPaint_def Let_def split: option.splits)

lemma renderEdges_loop_resolved:
  "list_all (resolves (store c)) es \<Longrightarrow>
   renderEdges_loop es c = Inr (c\<lparr>ctx := ctx c @ concat (map (edge_cmds (store c)) es)\<rparr>)"
proof (induction es arbitrary: c)
  case Nil
  then show ?case by simp
next
  case (Cons e es)
  then show ?case by (simp add: renderEdge_resolved)
qed

lemma renderEdges_loop_unresolved:
  "\<not> list_all (resolves (store c)) es \<Longrightarrow> renderEdges_loop es c = Inl TypeError"
proof (induction es arbitrary: c)
  case Nil
  then show ?case by simp
next
  case (Cons e es)
  show ?case
  proof (cases "resolves (store c) e")
    case True
    with Cons.prems
    have "\<not> list_all (resolves (store (c\<lparr>ctx := ctx c @ edge_cmds (store c) e\<rparr>))) es"
      by simp
    then show ?thesis
      using True Cons.IH by (simp add: renderEdge_resolved)
  next
    case False
    then show ?thesis by (simp add: renderEdge_unresolved)
  qed
qed

text \<open>The example scene after the gestures used below.\<close>

lemma press_both:
  "onMouseDown (mouseAt 25 25) scene =
     scene\<lparr>lastOffset := Some \<lparr>x = 25, y = 25\<rparr>, action := MOVE, selected := [1, 2],
           updates := 2\<rparr>"
  by (simp add: onMouseDown_def mouseAt_def scene_def newCanvas_def clear_def onUpdate_def
      getSelection_def toWorld_def node1_def node2_def Let_def)

lemma press_nothing:
  "onMouseDown (mouseAt 0 0) scene =
     scene\<lparr>lastOffset := Some \<lparr>x = 0, y = 0\<rparr>, action := MOVE, selected := [],
           updates := 2\<rparr>"
  by (simp add: onMouseDown_def mouseAt_def scene_def newCanvas_def clear_def onUpdate_def
      getSelection_def toWorld_def node1_def node2_def Let_def)

lemma zoomed_press_both:
  "onMouseDown (mouseAt 25 25) (onWheel (wheel True 0 (- 100)) scene) =
     scene\<lparr>scale := 2, lastOffset := Some \<lparr>x = 25, y = 25\<rparr>, action := MOVE,
           selected := [1, 2], updates := 3\<rparr>"
  by (simp add: onMouseDown_def onWheel_def wheel_def mouseAt_def scene_def newCanvas_def
      clear_def onUpdate_def getSelection_def toWorld_def node1_def node2_def Let_def)

section \<open>Hit test\<close>

text \<open>
  C2: for every screen point and every node list in the store, \<open>getSelection\<close> returns
  exactly the ids of the nodes whose rectangle contains the world image of the point,
  all four edges included, in the store's iteration order.
\<close>

theorem getSelection_hits:
  "getSelection target c =
     map id_node (filter (inside_rect (toWorld (x target) (y target) c)) (nodes (store c)))"
  by (simp add: getSelection_def getSelection_loop_filter)

theorem getSelection_hits_witness:
  "getSelection \<lparr>x = 25, y = 25\<rparr> scene = [1, 2] \<and>
   getSelection \<lparr>x = 10, y = 30\<rparr> scene = [1] \<and>
   getSelection \<lparr>x = 40, y = 40\<rparr> scene = [2] \<and>
   getSelection \<lparr>x = 41, y = 40\<rparr> scene = []"
  by (simp only: getSelection_hits)
    (simp add: inside_rect_def toWorld_def scene_def newCanvas_def node1_def node2_def)

section \<open>Interaction state machine\<close>

text \<open>
  C3: a pointer-move event received while the action is \<open>MOVE\<close>, the selection is not
  empty and a last offset is recorded divides the screen delta from the last offset by
  the current scale, adds it to \<open>x\<close> and \<open>y\<close> of the primary selected node (the node the
  store retrieves for the last id of the selection), hands that node and no other to
  \<open>updateNode\<close>, and replaces the last offset by the current point. With a scale of zero
  the quotient is not a finite number, which is outside this model.
\<close>

theorem onMouseMove_drag:
  assumes "action c = MOVE" and "selected c \<noteq> []" and "lastOffset c = Some lo"
    and "scale c \<noteq> 0"
  shows "onMouseMove e c =
     Inr (case retrieveNode (store c) (last (selected c)) of
            None \<Rightarrow> c\<lparr>lastOffset := Some \<lparr>x = offsetX e, y = offsetY e\<rparr>\<rparr>
          | Some n \<Rightarrow>
              c\<lparr>store := updateNode (store c)
                            (n\<lparr>x := x n + (offsetX e - x lo) / scale c,
                               y := y n + (offsetY e - y lo) / scale c\<rparr>),
                lastOffset := Some \<lparr>x = offsetX e, y = offsetY e\<rparr>\<rparr>)"
  using assms
  by (simp add: onMouseMove_def selectedNode_def moveNode_def Let_def last_conv_nth
      split: option.splits)

theorem onMouseMove_drag_witness:
  "onMouseMove (mouseAt 45 45)
     (onMouseDown (mouseAt 25 25) (onWheel (wheel True 0 (- 100)) scene)) =
   Inr ((onMouseDown (mouseAt 25 25) (onWheel (wheel True 0 (- 100)) scene))
          \<lparr>store := \<lparr>nodes = [node1, node2\<lparr>x := 30, y := 30\<rparr>],
                      edges = [\<lparr>startNode = 1, endNode = 2\<rparr>]\<rparr>,
           lastOffset := Some \<lparr>x = 45, y = 45\<rparr>\<rparr>)"
proof -
  let ?c = "onMouseDown (mouseAt 25 25) (onWheel (wheel True 0 (- 100)) scene)"
  have c: "?c = scene\<lparr>scale := 2, lastOffset := Some \<lparr>x = 25, y = 25\<rparr>, action := MOVE,
                      selected := [1, 2], updates := 3\<rparr>"
    by (rule zoomed_press_both)
  have h: "action ?c = MOVE" "selected ?c \<noteq> []" "lastOffset ?c = Some \<lparr>x = 25, y = 25\<rparr>"
    "scale ?c \<noteq> 0"
    by (simp_all add: c)
  have st: "store ?c = \<lparr>nodes = [node1, node2], edges = [\<lparr>startNode = 1, endNode = 2\<rparr>]\<rparr>"
    unfolding c by (simp add: scene_def)
  have sel: "retrieveNode (store ?c) (last (selected ?c)) = Some node2"
    unfolding st by (simp add: c node1_def node2_def)
  have upd: "updateNode (store ?c) (node2\<lparr>x := 30, y := 30\<rparr>) =
      \<lparr>nodes = [node1, node2\<lparr>x := 30, y := 30\<rparr>], edges = [\<lparr>startNode = 1, endNode = 2\<rparr>]\<rparr>"
    unfolding st by (simp add: updateNode_def node1_def node2_def)
  have mv: "node2\<lparr>x := x node2 + (45 - 25) / scale ?c,
                  y := y node2 + (45 - 25) / scale ?c\<rparr> =
            node2\<lparr>x := 30, y := 30\<rparr>"
    unfolding c by (simp add: node2_def)
  have ev: "offsetX (mouseAt 45 45) = 45" "offsetY (mouseAt 45 45) = 45"
    by (simp_all add: mouseAt_def)
  from onMouseMove_drag [OF h, of "mouseAt 45 45"] show ?thesis
    by (simp only: sel option.case Offset.simps mv upd ev)
qed

text \<open>
  C4: a wheel event with the ctrl modifier decreases the scale by \<open>deltaY \<times> 0.01\<close> and
  leaves the offset as it is; one without it decreases the offset by
  \<open>(deltaX \<times> 2, deltaY \<times> 2)\<close> and leaves the scale as it is; either way the action is
  \<open>NONE\<close> when the handler returns.
\<close>

theorem onWheel_effect:
  "(ctrlKey e \<longrightarrow>
      scale (onWheel e c) = scale c - deltaY e * 0.01 \<and> offset (onWheel e c) = offset c) \<and>
   (\<not> ctrlKey e \<longrightarrow>
      offset (onWheel e c) =
        \<lparr>x = x (offset c) - deltaX e * 2, y = y (offset c) - deltaY e * 2\<rparr> \<and>
      scale (onWheel e c) = scale c) \<and>
   action (onWheel e c) = NONE"
  by (cases "offset c") (simp add: onWheel_def onUpdate_def Let_def)

theorem onWheel_effect_witness:
  "scale (onWheel (wheel True 0 10) newCanvas) = 1 - 1 / 10 \<and>
   offset (onWheel (wheel True 0 10) newCanvas) = \<lparr>x = 0, y = 0\<rparr> \<and>
   offset (onWheel (wheel False 5 5) newCanvas) = \<lparr>x = - 10, y = - 10\<rparr> \<and>
   scale (onWheel (wheel False 5 5) newCanvas) = 1 \<and>
   action (onWheel (wheel True 0 10) newCanvas) = NONE \<and>
   action (onWheel (wheel False 5 5) newCanvas) = NONE"
  using onWheel_effect [of "wheel True 0 10" newCanvas]
    onWheel_effect [of "wheel False 5 5" newCanvas]
  by (simp add: wheel_def newCanvas_def)

text \<open>
  C5, as the code has it: the scale is not clamped. A wheel event with the ctrl modifier
  leaves the scale strictly positive exactly when \<open>deltaY \<times> 0.01\<close> is less than the
  scale before it, and a wheel event without the modifier leaves the scale as it is; so
  a strictly positive scale stays strictly positive over every sequence of wheel events
  in which each ctrl-wheel event takes less than the scale it finds.
\<close>

theorem scale_unclamped:
  "(ctrlKey e \<longrightarrow> (0 < scale (onWheel e c) \<longleftrightarrow> deltaY e * 0.01 < scale c)) \<and>
   (\<not> ctrlKey e \<longrightarrow> scale (onWheel e c) = scale c) \<and>
   (0 < scale c \<and> within_scale es c \<longrightarrow> 0 < scale (fold onWheel es c))"
  by (simp add: scale_onWheel within_scale_positive)

theorem scale_unclamped_witness:
  "0 < scale (onWheel (wheel True 0 10) newCanvas) \<and>
   \<not> 0 < scale (onWheel (wheel True 0 100) newCanvas) \<and>
   scale (onWheel (wheel False 5 5) newCanvas) = 1 \<and>
   0 < scale newCanvas \<and>
   within_scale [wheel True 0 10, wheel False 5 5, wheel True 0 20] newCanvas \<and>
   0 < scale (fold onWheel [wheel True 0 10, wheel False 5 5, wheel True 0 20] newCanvas)"
proof -
  have one: "scale newCanvas = 1"
    by (simp add: newCanvas_def)
  have ev: "ctrlKey (wheel True 0 10)" "deltaY (wheel True 0 10) = 10"
    "ctrlKey (wheel True 0 100)" "deltaY (wheel True 0 100) = 100"
    "\<not> ctrlKey (wheel False 5 5)"
    by (simp_all add: wheel_def)
  have run: "within_scale [wheel True 0 10, wheel False 5 5, wheel True 0 20] newCanvas"
    by (simp add: scale_onWheel) (simp add: wheel_def one)
  from scale_unclamped [of "wheel True 0 10" newCanvas "[]"] ev one
  have a: "0 < scale (onWheel (wheel True 0 10) newCanvas)"
    by simp
  from scale_unclamped [of "wheel True 0 100" newCanvas "[]"] ev one
  have b: "\<not> 0 < scale (onWheel (wheel True 0 100) newCanvas)"
    by simp
  from scale_unclamped [of "wheel False 5 5" newCanvas
      "[wheel True 0 10, wheel False 5 5, wheel True 0 20]"] ev one run
  have c: "scale (onWheel (wheel False 5 5) newCanvas) = 1"
    and d: "0 < scale (fold onWheel [wheel True 0 10, wheel False 5 5, wheel True 0 20] newCanvas)"
    by simp_all
  from a b c d one run show ?thesis
    by simp
qed

text \<open>
  One ctrl-wheel event with \<open>deltaY = 100\<close> on a new canvas, whose scale is 1, brings the
  scale to zero.
\<close>

theorem scale_zero_counterexample:
  "scale (onWheel (wheel True 0 100) newCanvas) = 0 \<and>
   \<not> 0 < scale (onWheel (wheel True 0 100) newCanvas)"
  by (simp add: onWheel_def onUpdate_def wheel_def newCanvas_def Let_def)

section \<open>Rendering of edges\<close>

text \<open>
  C6, as the code has it: when both endpoints of every edge of the store resolve,
  \<open>renderEdges\<close> draws every edge, in store order, as the curve between the centres of
  its two nodes. An edge with an endpoint that does not resolve is not skipped: reading
  the absent node throws a TypeError, and \<open>renderEdges\<close> ends with that error.
\<close>

theorem renderEdges_result:
  "(list_all (resolves (store c)) (edges (store c)) \<longrightarrow>
      renderEdges c =
        Inr (c\<lparr>ctx := ctx c @ concat (map (edge_cmds (store c)) (edges (store c)))\<rparr>)) \<and>
   (\<not> list_all (resolves (store c)) (edges (store c)) \<longrightarrow> renderEdges c = Inl TypeError)"
  by (simp add: renderEdges_def renderEdges_loop_resolved renderEdges_loop_unresolved)

theorem renderEdges_result_witness:
  "renderEdges scene =
     Inr (scene\<lparr>ctx := [Save, Save, BeginPath, StrokeStyle ''black'', MoveTo 20 20,
                         BezierCurveTo 30 20 20 30 30 30, Stroke, Restore, Restore]\<rparr>) \<and>
   renderEdges dangling = Inl TypeError"
proof -
  have s: "store scene = \<lparr>nodes = [node1, node2], edges = [\<lparr>startNode = 1, endNode = 2\<rparr>]\<rparr>"
    and cs: "ctx scene = []"
    by (simp_all add: scene_def newCanvas_def)
  have d: "store dangling = \<lparr>nodes = [node1], edges = [\<lparr>startNode = 1, endNode = 2\<rparr>]\<rparr>"
    by (simp add: dangling_def)
  have rs: "list_all (resolves (store scene)) (edges (store scene))"
    unfolding s by (simp add: resolves_def node1_def node2_def)
  have rd: "\<not> list_all (resolves (store dangling)) (edges (store dangling))"
    unfolding d by (simp add: resolves_def node1_def)
  have cmds: "concat (map (edge_cmds (store scene)) (edges (store scene))) =
      [Save, Save, BeginPath, StrokeStyle ''black'', MoveTo 20 20,
       BezierCurveTo 30 20 20 30 30 30, Stroke, Restore, Restore]"
    unfolding s by (simp add: edge_cmds_def edge_curve_def node1_def node2_def)
  from renderEdges_result [of scene] rs cmds cs
  have "renderEdges scene =
     Inr (scene\<lparr>ctx := [Save, Save, BeginPath, StrokeStyle ''black'', MoveTo 20 20,
                         BezierCurveTo 30 20 20 30 30 30, Stroke, Restore, Restore]\<rparr>)"
    by simp
  moreover from renderEdges_result [of dangling] rd have "renderEdges dangling = Inl TypeError"
    by simp
  ultimately show ?thesis by simp
qed

text \<open>
  The end node of the only edge of \<open>dangling\<close> is not in the store: drawing that edge, and
  with it the whole pass over the edges, fails.
\<close>

theorem renderEdge_dangling_counterexample:
  "retrieveNode (store dangling) 2 = None \<and>
   renderEdge \<lparr>startNode = 1, endNode = 2\<rparr> dangling = Inl TypeError \<and>
   renderEdges dangling = Inl TypeError"
  by (simp add: dangling_def newCanvas_def node1_def renderEdges_def renderEdge_def
      draw_def Let_def)

section \<open>Notification of the host\<close>

text \<open>
  C7, as the code has it: \<open>onUpdate\<close> is invoked at least once by every wheel event, by
  every press event and by every \<open>clear\<close>; a pointer-move event, also one that drags a
  node, does not invoke it.
\<close>

theorem onUpdate_invoked:
  "updates (onWheel w c) \<ge> updates c + 1 \<and>
   updates (onMouseDown e c) \<ge> updates c + 1 \<and>
   updates (clear c) \<ge> updates c + 1 \<and>
   (\<forall>c'. onMouseMove e c = Inr c' \<longrightarrow> updates c' = updates c)"
  using updates_onMouseMove
  by (simp add: updates_onWheel updates_onMouseDown updates_clear)

text \<open>
  After a press on the two overlapping nodes, a move to \<open>(35, 35)\<close> drags \<open>node2\<close> by
  \<open>(10, 10)\<close>, and the count of \<open>onUpdate\<close> invocations stays at the two of the press.
\<close>

theorem onUpdate_drag_counterexample:
  "onMouseMove (mouseAt 35 35) (onMouseDown (mouseAt 25 25) scene) =
     Inr (scene\<lparr>store := \<lparr>nodes = [node1, node2\<lparr>x := 30, y := 30\<rparr>],
                            edges = [\<lparr>startNode = 1, endNode = 2\<rparr>]\<rparr>,
                lastOffset := Some \<lparr>x = 35, y = 35\<rparr>, action := MOVE,
                selected := [1, 2], updates := 2\<rparr>) \<and>
   updates (onMouseDown (mouseAt 25 25) scene) = 2"
  unfolding press_both
  by (simp add: onMouseMove_def selectedNode_def moveNode_def updateNode_def scene_def
      newCanvas_def node1_def node2_def mouseAt_def Let_def)

theorem onUpdate_invoked_witness:
  "updates (onWheel (wheel True 0 10) scene) \<ge> 1 \<and>
   updates (onMouseDown (mouseAt 25 25) scene) \<ge> 1 \<and>
   updates (clear scene) \<ge> 1 \<and>
   onMouseMove (mouseAt 0 0) scene = Inr (checkHover \<lparr>x = 0, y = 0\<rparr> scene) \<and>
   updates (checkHover \<lparr>x = 0, y = 0\<rparr> scene) = 0"
proof -
  have u: "updates scene = 0"
    by (simp add: scene_def newCanvas_def)
  have m: "onMouseMove (mouseAt 0 0) scene = Inr (checkHover \<lparr>x = 0, y = 0\<rparr> scene)"
    by (simp add: onMouseMove_def scene_def newCanvas_def mouseAt_def)
  from onUpdate_invoked [of scene "wheel True 0 10" "mouseAt 25 25"]
    onUpdate_invoked [of scene "wheel True 0 10" "mouseAt 0 0"] m u
  show ?thesis by simp
qed

section \<open>Frames of the pointer handlers\<close>

text \<open>
  C8, as the code has it: a pointer-move event received while the action is \<open>MOVE\<close> and
  the selection is empty does not throw, and it runs the hover check: the hover set
  becomes the hit-test result at the pointer and the cursor becomes \<open>pointer\<close> when the
  primary hovered node (the one the store retrieves for the last hovered id) exists and
  \<open>default\<close> otherwise, while the selection set, the store with the node positions, the
  last offset, the scale, the offset, the action and every other field are as before.
\<close>

theorem onMouseMove_hover:
  assumes "action c = MOVE" and "selected c = []"
  shows "\<exists>c'. onMouseMove e c = Inr c' \<and>
           hovered c' = getSelection \<lparr>x = offsetX e, y = offsetY e\<rparr> c \<and>
           cursor c' = (if hoveredNode c' = None then ''default'' else ''pointer'') \<and>
           selected c' = selected c \<and> store c' = store c \<and>
           lastOffset c' = lastOffset c \<and> scale c' = scale c \<and>
           offset c' = offset c \<and> action c' = action c \<and>
           c' = c\<lparr>hovered := hovered c', cursor := cursor c'\<rparr>"
  using assms
  by (simp add: onMouseMove_def checkHover_def hoveredNode_def getSelection_hovered Let_def
      split: option.splits)

theorem onMouseMove_hover_witness:
  "action (onMouseDown (mouseAt 0 0) scene) = MOVE \<and>
   selected (onMouseDown (mouseAt 0 0) scene) = [] \<and>
   (\<exists>c'. onMouseMove (mouseAt 25 25) (onMouseDown (mouseAt 0 0) scene) = Inr c' \<and>
         hovered c' = [1, 2] \<and> cursor c' = ''pointer'' \<and> selected c' = [] \<and>
         lastOffset c' = Some \<lparr>x = 0, y = 0\<rparr> \<and> action c' = MOVE)"
proof -
  let ?c = "onMouseDown (mouseAt 0 0) scene"
  have c: "?c = scene\<lparr>lastOffset := Some \<lparr>x = 0, y = 0\<rparr>, action := MOVE, selected := [],
                      updates := 2\<rparr>"
    by (rule press_nothing)
  have h: "action ?c = MOVE" "selected ?c = []"
    by (simp_all add: c)
  have lo: "lastOffset ?c = Some \<lparr>x = 0, y = 0\<rparr>"
    by (simp add: c)
  have g: "getSelection \<lparr>x = offsetX (mouseAt 25 25), y = offsetY (mouseAt 25 25)\<rparr> ?c = [1, 2]"
    unfolding c
    by (simp add: getSelection_def toWorld_def mouseAt_def scene_def newCanvas_def node1_def
        node2_def)
  have st: "store ?c = \<lparr>nodes = [node1, node2], edges = [\<lparr>startNode = 1, endNode = 2\<rparr>]\<rparr>"
    unfolding c by (simp add: scene_def)
  from onMouseMove_hover [OF h, of "mouseAt 25 25"]
  obtain c' where r: "onMouseMove (mouseAt 25 25) ?c = Inr c'"
    and hv: "hovered c' = [1, 2]"
    and cu: "cursor c' = (if hoveredNode c' = None then ''default'' else ''pointer'')"
    and fr: "selected c' = selected ?c" "store c' = store ?c" "lastOffset c' = lastOffset ?c"
      "action c' = action ?c"
    unfolding g by blast
  have "hoveredNode c' = Some node2"
    by (simp add: hoveredNode_def hv fr st node1_def node2_def)
  with cu have "cursor c' = ''pointer''"
    by simp
  with r hv fr h lo show ?thesis
    by simp
qed

text \<open>
  After a press on empty space the action is \<open>MOVE\<close> and the selection is empty; a move
  over the two nodes then changes the hover set from empty to both ids.
\<close>

theorem onMouseMove_hover_counterexample:
  "action (onMouseDown (mouseAt 0 0) scene) = MOVE \<and>
   selected (onMouseDown (mouseAt 0 0) scene) = [] \<and>
   hovered (onMouseDown (mouseAt 0 0) scene) = [] \<and>
   onMouseMove (mouseAt 25 25) (onMouseDown (mouseAt 0 0) scene) =
     Inr ((onMouseDown (mouseAt 0 0) scene)\<lparr>hovered := [1, 2], cursor := ''pointer''\<rparr>)"
  unfolding press_nothing
  by (simp add: onMouseMove_def checkHover_def hoveredNode_def scene_def newCanvas_def
      node1_def node2_def mouseAt_def getSelection_def toWorld_def Let_def)

text \<open>
  C9: a release event, whatever the action before it, clears the last offset and sets
  the action to \<open>NONE\<close>; the selection set is as before.
\<close>

theorem onMouseUp_clears:
  "lastOffset (onMouseUp e c) = None \<and> action (onMouseUp e c) = NONE \<and>
   selected (onMouseUp e c) = selected c"
  by (simp add: onMouseUp_def)

theorem onMouseUp_clears_witness:
  "lastOffset (onMouseUp (mouseAt 30 30) (onMouseDown (mouseAt 25 25) scene)) = None \<and>
   action (onMouseUp (mouseAt 30 30) (onMouseDown (mouseAt 25 25) scene)) = NONE \<and>
   selected (onMouseUp (mouseAt 30 30) (onMouseDown (mouseAt 25 25) scene)) = [1, 2]"
  using onMouseUp_clears [of "mouseAt 30 30" "onMouseDown (mouseAt 25 25) scene"]
  by (simp add: press_both)

text \<open>
  C10: with a scale that is not zero, \<open>moveNode\<close> returns; the node it was given differs
  from before in \<open>x\<close> and \<open>y\<close> only; the canvas differs in the store only, and there the
  edges, the number of nodes and every node with another id are as before, and a node
  stored under the id is now the moved node.
\<close>

theorem moveNode_frame:
  assumes "scale c \<noteq> 0"
  shows "\<exists>n' c'. moveNode n d c = Inr (n', c') \<and>
           n' = n\<lparr>x := x n + x d / scale c, y := y n + y d / scale c\<rparr> \<and>
           id_node n' = id_node n \<and> width n' = width n \<and> height n' = height n \<and>
           name n' = name n \<and> backgroundColor n' = backgroundColor n \<and>
           c' = c\<lparr>store := updateNode (store c) n'\<rparr> \<and>
           edges (store c') = edges (store c) \<and>
           length (nodes (store c')) = length (nodes (store c)) \<and>
           (\<forall>i < length (nodes (store c)).
              id_node (nodes (store c) ! i) \<noteq> id_node n \<longrightarrow>
              nodes (store c') ! i = nodes (store c) ! i) \<and>
           (retrieveNode (store c) (id_node n) \<noteq> None \<longrightarrow>
              retrieveNode (store c') (id_node n) = Some n') \<and>
           scale c' = scale c \<and> offset c' = offset c \<and> selected c' = selected c \<and>
           hovered c' = hovered c \<and> matrix c' = matrix c \<and> invMatrix c' = invMatrix c"
  using assms find_persist [of "n\<lparr>x := x n + x d / scale c, y := y n + y d / scale c\<rparr>"]
  by (simp add: moveNode_def updateNode_def Let_def length_persist persist_other)

theorem moveNode_frame_witness:
  "scale scene \<noteq> 0 \<and>
   moveNode node2 \<lparr>x = 10, y = 10\<rparr> scene =
     Inr (node2\<lparr>x := 30, y := 30\<rparr>,
          scene\<lparr>store := \<lparr>nodes = [node1, node2\<lparr>x := 30, y := 30\<rparr>],
                            edges = [\<lparr>startNode = 1, endNode = 2\<rparr>]\<rparr>\<rparr>)"
proof -
  have sc: "scale scene = 1"
    by (simp add: scene_def newCanvas_def)
  then have nz: "scale scene \<noteq> 0"
    by simp
  have mv: "node2\<lparr>x := x node2 + x \<lparr>x = 10, y = 10\<rparr> / scale scene,
                  y := y node2 + y \<lparr>x = 10, y = 10\<rparr> / scale scene\<rparr> = node2\<lparr>x := 30, y := 30\<rparr>"
    unfolding sc by (simp add: node2_def)
  have upd: "updateNode (store scene) (node2\<lparr>x := 30, y := 30\<rparr>) =
      \<lparr>nodes = [node1, node2\<lparr>x := 30, y := 30\<rparr>], edges = [\<lparr>startNode = 1, endNode = 2\<rparr>]\<rparr>"
    by (simp add: scene_def updateNode_def node1_def node2_def)
  from moveNode_frame [OF nz, of node2 "\<lparr>x = 10, y = 10\<rparr>"]
  obtain n' c' where r: "moveNode node2 \<lparr>x = 10, y = 10\<rparr> scene = Inr (n', c')"
    and n': "n' = node2\<lparr>x := x node2 + x \<lparr>x = 10, y = 10\<rparr> / scale scene,
                       y := y node2 + y \<lparr>x = 10, y = 10\<rparr> / scale scene\<rparr>"
    and c': "c' = scene\<lparr>store := updateNode (store scene) n'\<rparr>"
    by blast
  show ?thesis
    using nz r n' c' mv upd by simp
qed

end
